theory Spec2Isabelle
  imports Complex_Main "HOL-Library.Product_Lexorder"
begin

section \<open>The imaging library, as far as the script uses it\<close>

text \<open>
  \<^verbatim>\<open>scripts/generate-favicon.py\<close> draws through Pillow (\<^verbatim>\<open>PIL.Image\<close>,
  \<^verbatim>\<open>PIL.ImageDraw\<close>). The library is not part of the repository; this section fixes
  the part of its documented behaviour that the script relies on.

  A colour is a Python tuple of channel values. A canvas is an image object: its mode,
  its dimensions, the colour \<^verbatim>\<open>Image.new\<close> filled it with, and the primitives drawn on it
  so far, oldest first, each with the ink it was drawn in. The pixels of a canvas follow
  from these through the library's scan conversion, which is a parameter (\<open>covers\<close>) of
  \<open>getpixel\<close> below: a draw context made for an \<^verbatim>\<open>RGBA\<close> image writes its ink over the
  pixels a primitive covers, without blending.
\<close>

type_synonym colour = "int list"

type_synonym box = "int \<times> int \<times> int \<times> int"

datatype shape = Polygon "(int \<times> int) list" | Ellipse box

record image =
  mode :: string
  width :: int
  height :: int
  background :: colour
  drawn :: "(shape \<times> colour) list"

datatype error = ValueError | IndexError

datatype resampling = NEAREST | LANCZOS

datatype stored = PNG image | ICO "image list"

text \<open>
  The state a run of the script can observe or change: the image objects allocated so
  far (an object's address is its index in \<open>heap\<close>), the files written, and the lines
  printed. A statement of the script is a function from the state to a result (the value
  returned or the exception raised) and the state it leaves.
\<close>

record world =
  heap :: "image list"
  files :: "string \<Rightarrow> stored option"
  stdout :: "string list"

type_synonym 'a io = "world \<Rightarrow> (error + 'a) \<times> world"

definition return_io :: "'a \<Rightarrow> 'a io" where
  "return_io x w = (Inr x, w)"

definition raise_io :: "error \<Rightarrow> 'a io" where
  "raise_io e w = (Inl e, w)"

definition then_io :: "'a io \<Rightarrow> ('a \<Rightarrow> 'b io) \<Rightarrow> 'b io" where
  "then_io m f w = (case m w of (Inl e, w') \<Rightarrow> (Inl e, w') | (Inr x, w') \<Rightarrow> f x w')"

text \<open>\<^verbatim>\<open>for x in xs: body\<close>\<close>

fun for_each :: "'a list \<Rightarrow> ('a \<Rightarrow> unit io) \<Rightarrow> unit io" where
  "for_each [] body = return_io ()"
| "for_each (x # xs) body = then_io (body x) (\<lambda>_. for_each xs body)"

text \<open>\<^verbatim>\<open>range(n)\<close>\<close>

definition py_range :: "nat \<Rightarrow> int list" where
  "py_range n = map int [0..<n]"

text \<open>
  \<^verbatim>\<open>int(x)\<close> of a float truncates toward zero. A float is modelled as a real number: the
  script divides its size by 64 and multiplies by constants of at most five bits, which
  IEEE doubles do exactly for every size below \<open>2^48\<close>.
\<close>

definition int_of_float :: "real \<Rightarrow> int" where
  "int_of_float x = (if 0 \<le> x then \<lfloor>x\<rfloor> else \<lceil>x\<rceil>)"

text \<open>
  \<^verbatim>\<open>Image.new(mode, size, color)\<close> raises \<^verbatim>\<open>ValueError\<close> for a negative width or height
  and otherwise allocates a canvas filled with the colour.
\<close>

definition Image_new :: "string \<Rightarrow> int \<times> int \<Rightarrow> colour \<Rightarrow> nat io" where
  "Image_new m wh c w =
     (if fst wh < 0 \<or> snd wh < 0 then (Inl ValueError, w)
      else (Inr (length (heap w)),
            w\<lparr>heap := heap w @
              [\<lparr>mode = m, width = fst wh, height = snd wh, background = c, drawn = []\<rparr>]\<rparr>))"

text \<open>
  \<^verbatim>\<open>ImageDraw.Draw(img)\<close> is a handle on the image object: what is drawn through it
  changes the object itself.
\<close>

datatype draw = Draw nat

fun target :: "draw \<Rightarrow> nat" where
  "target (Draw a) = a"

text \<open>
  The ink of a fill colour on an \<^verbatim>\<open>RGBA\<close> image: a tuple of three channels is opaque
  (alpha 255), a tuple of four is taken as it is.
\<close>

definition getink :: "colour \<Rightarrow> colour" where
  "getink c = (if length c = 3 then c @ [255] else c)"

definition paint :: "draw \<Rightarrow> shape \<Rightarrow> colour \<Rightarrow> unit io" where
  "paint d sh fill w =
     (let a = target d; im = heap w ! a
      in (Inr (), w\<lparr>heap := (heap w)[a := im\<lparr>drawn := drawn im @ [(sh, getink fill)]\<rparr>]\<rparr>))"

definition polygon :: "draw \<Rightarrow> (int \<times> int) list \<Rightarrow> colour \<Rightarrow> unit io" where
  "polygon d xy fill = paint d (Polygon xy) fill"

text \<open>
  \<^verbatim>\<open>draw.ellipse([x0, y0, x1, y1], fill)\<close> raises \<^verbatim>\<open>ValueError\<close> for a box with
  \<^verbatim>\<open>x1 < x0\<close> or \<^verbatim>\<open>y1 < y0\<close>; both corners of the box belong to the ellipse.
\<close>

definition well_ordered :: "box \<Rightarrow> bool" where
  "well_ordered b = (case b of (x0, y0, x1, y1) \<Rightarrow> x0 \<le> x1 \<and> y0 \<le> y1)"

definition ellipse :: "draw \<Rightarrow> box \<Rightarrow> colour \<Rightarrow> unit io" where
  "ellipse d xy fill = (if well_ordered xy then paint d (Ellipse xy) fill else raise_io ValueError)"

definition getpixel :: "(shape \<Rightarrow> int \<times> int \<Rightarrow> bool) \<Rightarrow> image \<Rightarrow> int \<times> int \<Rightarrow> colour option" where
  "getpixel covers im p =
     (if 0 \<le> fst p \<and> fst p < width im \<and> 0 \<le> snd p \<and> snd p < height im
      then Some (foldl (\<lambda>c (sh, ink). if covers sh p then ink else c) (background im) (drawn im))
      else None)"

text \<open>\<^verbatim>\<open>im.size\<close>\<close>

definition size_of :: "image \<Rightarrow> int \<times> int" where
  "size_of im = (width im, height im)"

text \<open>
  The resampling kernels of the library are parameters: \<open>resample L im wh f\<close> is the image
  \<open>im\<close> resampled to the size \<open>wh\<close> with the filter \<open>f\<close>, and \<open>thumbnail L im wh\<close> the
  image shrunk in place to fit \<open>wh\<close>.
\<close>

record pillow =
  resample :: "image \<Rightarrow> int \<times> int \<Rightarrow> resampling \<Rightarrow> image"
  thumbnail :: "image \<Rightarrow> int \<times> int \<Rightarrow> image"

text \<open>
  \<^verbatim>\<open>im.resize(size, resample)\<close> returns a new image object: a copy of \<open>im\<close> when
  \<open>im\<close> already has the requested size, the resampled image otherwise.
\<close>

definition resize :: "pillow \<Rightarrow> nat \<Rightarrow> int \<times> int \<Rightarrow> resampling \<Rightarrow> nat io" where
  "resize L a wh f w =
     (let im = heap w ! a
      in (Inr (length (heap w)),
          w\<lparr>heap := heap w @ [if size_of im = wh then im else resample L im wh f]\<rparr>))"

text \<open>\<^verbatim>\<open>im.save(path, 'PNG')\<close>\<close>

definition save_png :: "nat \<Rightarrow> string \<Rightarrow> unit io" where
  "save_png a path w = (Inr (), w\<lparr>files := (files w)(path \<mapsto> PNG (heap w ! a))\<rparr>)"

text \<open>
  \<^verbatim>\<open>im.save(path, format='ICO', sizes=..., append_images=...)\<close>. The library's ICO
  writer goes through the requested sizes in ascending order without repetitions. It
  skips a size that is wider or higher than \<open>im\<close> itself, or than 256 pixels: the
  library documents that any size bigger than the original size or 256 is ignored. For
  every other size it
  stores the first of \<open>im\<close> and the appended images that has exactly this size, and
  where there is none, a thumbnail of that size.
\<close>

fun ico_frames :: "pillow \<Rightarrow> image list \<Rightarrow> int \<times> int \<Rightarrow> (int \<times> int) list \<Rightarrow> image list" where
  "ico_frames L provided_ims orig [] = []"
| "ico_frames L provided_ims orig (s # ss) =
     (if fst s > fst orig \<or> snd s > snd orig \<or> fst s > 256 \<or> snd s > 256
      then ico_frames L provided_ims orig ss
      else (case find (\<lambda>im. size_of im = s) provided_ims of
              Some im \<Rightarrow> im
            | None \<Rightarrow> thumbnail L (last provided_ims) s) # ico_frames L provided_ims orig ss)"

definition save_ico :: "pillow \<Rightarrow> nat \<Rightarrow> string \<Rightarrow> (int \<times> int) list \<Rightarrow> nat list \<Rightarrow> unit io" where
  "save_ico L a path sizes append_images w =
     (let im = heap w ! a;
          provided_ims = im # map (\<lambda>b. heap w ! b) append_images;
          frames = ico_frames L provided_ims (size_of im) (sort (remdups sizes))
      in (Inr (), w\<lparr>files := (files w)(path \<mapsto> ICO frames)\<rparr>))"

text \<open>\<^verbatim>\<open>print(line)\<close>\<close>

definition print :: "string \<Rightarrow> unit io" where
  "print line w = (Inr (), w\<lparr>stdout := stdout w @ [line]\<rparr>)"

section \<open>The script\<close>

subsection \<open>Colours\<close>

text \<open>
  The module-level colour tuples. No statement of the module assigns to them, and a
  tuple cannot be changed in place; they are constants.
\<close>

definition BG_COLOR :: colour where
  "BG_COLOR = [10, 10, 15]"

definition GHOST_COLOR :: colour where
  "GHOST_COLOR = [40, 40, 60]"

definition NEON_COLOR :: colour where
  "NEON_COLOR = [0, 255, 170]"

definition NEON_GLOW :: colour where
  "NEON_GLOW = [0, 255, 170, 128]"

subsection \<open>The geometry of \<^verbatim>\<open>create_ghost_mask\<close>\<close>

text \<open>
  The local variables of \<^verbatim>\<open>create_ghost_mask(size)\<close>, each as a function of the size;
  \<open>scale\<close> is the local \<^verbatim>\<open>s\<close>.
\<close>

definition scale :: "int \<Rightarrow> real" where
  "scale sz = max (of_int sz / 64) (1 / 2)"

definition center_x :: "int \<Rightarrow> int" where
  "center_x sz = sz div 2"

definition center_y :: "int \<Rightarrow> int" where
  "center_y sz = sz div 2 - max 1 (int_of_float (4 * scale sz))"

definition head_width :: "int \<Rightarrow> int" where
  "head_width sz = max 2 (int_of_float (24 * scale sz))"

definition head_height :: "int \<Rightarrow> int" where
  "head_height sz = max 2 (int_of_float (22 * scale sz))"

definition ghost_points :: "int \<Rightarrow> (int \<times> int) list" where
  "ghost_points sz =
     [(center_x sz - max 1 (int_of_float (20 * scale sz)), center_y sz + max 1 (int_of_float (10 * scale sz))),
      (center_x sz - max 1 (int_of_float (22 * scale sz)), center_y sz + max 1 (int_of_float (20 * scale sz))),
      (center_x sz - max 1 (int_of_float (18 * scale sz)), center_y sz + max 1 (int_of_float (26 * scale sz))),
      (center_x sz - max 1 (int_of_float (14 * scale sz)), center_y sz + max 1 (int_of_float (28 * scale sz))),
      (center_x sz - max 1 (int_of_float (8 * scale sz)), center_y sz + max 1 (int_of_float (24 * scale sz))),
      (center_x sz, center_y sz + max 1 (int_of_float (28 * scale sz))),
      (center_x sz + max 1 (int_of_float (8 * scale sz)), center_y sz + max 1 (int_of_float (24 * scale sz))),
      (center_x sz + max 1 (int_of_float (14 * scale sz)), center_y sz + max 1 (int_of_float (28 * scale sz))),
      (center_x sz + max 1 (int_of_float (18 * scale sz)), center_y sz + max 1 (int_of_float (26 * scale sz))),
      (center_x sz + max 1 (int_of_float (22 * scale sz)), center_y sz + max 1 (int_of_float (20 * scale sz))),
      (center_x sz + max 1 (int_of_float (20 * scale sz)), center_y sz + max 1 (int_of_float (10 * scale sz)))]"

definition eye_offset_x :: "int \<Rightarrow> int" where
  "eye_offset_x sz = max 1 (int_of_float (8 * scale sz))"

definition eye_y :: "int \<Rightarrow> int" where
  "eye_y sz = center_y sz - max 1 (int_of_float (2 * scale sz))"

definition eye_radius :: "int \<Rightarrow> int" where
  "eye_radius sz = max 1 (int_of_float (6 * scale sz))"

definition glow_radius :: "int \<Rightarrow> int" where
  "glow_radius sz = max 2 (int_of_float (9 * scale sz))"

definition pupil_radius :: "int \<Rightarrow> int" where
  "pupil_radius sz = max 1 (int_of_float (4 * scale sz))"

definition highlight_radius :: "int \<Rightarrow> int" where
  "highlight_radius sz = max 1 (int_of_float (3 / 2 * scale sz))"

text \<open>The boxes of the ellipse calls, in the order of the calls.\<close>

definition head_box :: "int \<Rightarrow> box" where
  "head_box sz =
     (center_x sz - head_width sz, center_y sz - head_height sz,
      center_x sz + head_width sz, center_y sz + head_height sz div 2)"

definition socket_box :: "int \<Rightarrow> box" where
  "socket_box sz =
     (center_x sz - eye_offset_x sz - eye_radius sz, eye_y sz - eye_radius sz,
      center_x sz - eye_offset_x sz + eye_radius sz, eye_y sz + eye_radius sz)"

definition glow_box :: "int \<Rightarrow> int \<Rightarrow> box" where
  "glow_box sz i =
     (center_x sz - eye_offset_x sz - glow_radius sz + i * 2, eye_y sz - glow_radius sz + i * 2,
      center_x sz - eye_offset_x sz + glow_radius sz - i * 2, eye_y sz + glow_radius sz - i * 2)"

definition pupil_box :: "int \<Rightarrow> box" where
  "pupil_box sz =
     (center_x sz - eye_offset_x sz - pupil_radius sz, eye_y sz - pupil_radius sz,
      center_x sz - eye_offset_x sz + pupil_radius sz, eye_y sz + pupil_radius sz)"

definition highlight_box :: "int \<Rightarrow> box" where
  "highlight_box sz =
     (center_x sz - eye_offset_x sz - int_of_float (2 * scale sz), eye_y sz - int_of_float (2 * scale sz),
      center_x sz - eye_offset_x sz - max 1 (int_of_float (1 / 2 * scale sz)),
      eye_y sz - max 1 (int_of_float (1 / 2 * scale sz)))"

subsection \<open>\<^verbatim>\<open>create_ghost_mask\<close>\<close>

definition create_ghost_mask :: "int \<Rightarrow> nat io" where
  "create_ghost_mask sz =
     then_io (Image_new ''RGBA'' (sz, sz) (BG_COLOR @ [255])) (\<lambda>img.
     let draw = Draw img in
     if sz < 8 then return_io img
     else
       then_io (polygon draw (ghost_points sz) (GHOST_COLOR @ [255])) (\<lambda>_.
       then_io (ellipse draw (head_box sz) (GHOST_COLOR @ [255])) (\<lambda>_.
       then_io (ellipse draw (socket_box sz) (BG_COLOR @ [255])) (\<lambda>_.
       then_io (for_each (py_range 3) (\<lambda>i.
         let alpha = 60 - i * 15
         in ellipse draw (glow_box sz i) (NEON_COLOR @ [alpha]))) (\<lambda>_.
       then_io (ellipse draw (pupil_box sz) NEON_COLOR) (\<lambda>_.
       then_io (ellipse draw (highlight_box sz) [200, 255, 230]) (\<lambda>_.
       return_io img)))))))"

subsection \<open>The export\<close>

definition public_dir :: string where
  "public_dir = ''/root/.openclaw/workspace/ghostshift/public/''"

definition ico_path :: string where
  "ico_path = public_dir @ ''favicon.ico''"

text \<open>The loop of \<^verbatim>\<open>create_favicon_ico\<close>; \<open>images\<close> is the list built so far.\<close>

fun render_sizes :: "pillow \<Rightarrow> int list \<Rightarrow> nat list \<Rightarrow> (nat list) io" where
  "render_sizes L [] images = return_io images"
| "render_sizes L (sz # sizes) images =
     then_io (create_ghost_mask sz) (\<lambda>img.
     then_io (resize L img (sz, sz) LANCZOS) (\<lambda>resized.
     render_sizes L sizes (images @ [resized])))"

text \<open>\<^verbatim>\<open>[(i.width, i.height) for i in images]\<close>\<close>

definition sizes_of :: "nat list \<Rightarrow> ((int \<times> int) list) io" where
  "sizes_of images w = (Inr (map (\<lambda>i. (width (heap w ! i), height (heap w ! i))) images), w)"

definition default_sizes :: "int list" where
  "default_sizes = [16, 32, 48, 64, 128, 256]"

definition create_favicon_ico :: "pillow \<Rightarrow> int list \<Rightarrow> string io" where
  "create_favicon_ico L sizes =
     then_io (render_sizes L sizes []) (\<lambda>images.
     case images of
       [] \<Rightarrow> raise_io IndexError
     | first # rest \<Rightarrow>
         then_io (sizes_of images) (\<lambda>whs.
         then_io (save_ico L first ico_path whs rest) (\<lambda>_.
         then_io (print (''Created '' @ ico_path)) (\<lambda>_.
         return_io ico_path))))"

definition create_png :: "int \<Rightarrow> string \<Rightarrow> string io" where
  "create_png sz filename =
     then_io (create_ghost_mask sz) (\<lambda>img.
     let path = public_dir @ filename in
     then_io (save_png img path) (\<lambda>_.
     then_io (print (''Created '' @ path)) (\<lambda>_.
     return_io path)))"

definition main :: "pillow \<Rightarrow> unit io" where
  "main L =
     then_io (print ''Generating GhostShift favicon assets...'') (\<lambda>_.
     then_io (create_favicon_ico L default_sizes) (\<lambda>_.
     then_io (create_png 16 ''favicon-16x16.png'') (\<lambda>_.
     then_io (create_png 32 ''favicon-32x32.png'') (\<lambda>_.
     then_io (create_png 180 ''apple-touch-icon.png'') (\<lambda>_.
     print (CHR 0x0A # ''All favicon assets created successfully!''))))))"

text \<open>The state in which the script starts: no image object, no file, nothing printed.\<close>

definition initial :: world where
  "initial = \<lparr>heap = [], files = Map.empty, stdout = []\<rparr>"

text \<open>
  The canvas object a call has returned, read in the state the call has left; \<open>None\<close>
  when the call has raised.
\<close>

definition returned :: "(error + nat) \<times> world \<Rightarrow> image option" where
  "returned r =
     (case r of
        (Inl e, w) \<Rightarrow> None
      | (Inr a, w) \<Rightarrow> if a < length (heap w) then Some (heap w ! a) else None)"

text \<open>
  The canvas \<^verbatim>\<open>create_ghost_mask(size)\<close> returns when it is the first call of a run.
\<close>

definition rendered :: "int \<Rightarrow> image option" where
  "rendered sz = returned (create_ghost_mask sz initial)"

subsection \<open>Reading a canvas\<close>

text \<open>The edges and the extent of a box, and the boxes of the ellipses drawn on a canvas.\<close>

definition box_left :: "box \<Rightarrow> int" where
  "box_left b = (case b of (x0, y0, x1, y1) \<Rightarrow> x0)"

definition box_top :: "box \<Rightarrow> int" where
  "box_top b = (case b of (x0, y0, x1, y1) \<Rightarrow> y0)"

definition box_right :: "box \<Rightarrow> int" where
  "box_right b = (case b of (x0, y0, x1, y1) \<Rightarrow> x1)"

definition box_bottom :: "box \<Rightarrow> int" where
  "box_bottom b = (case b of (x0, y0, x1, y1) \<Rightarrow> y1)"

definition extent :: "box \<Rightarrow> int \<times> int" where
  "extent b = (box_right b - box_left b, box_bottom b - box_top b)"

fun ellipse_boxes :: "(shape \<times> colour) list \<Rightarrow> box list" where
  "ellipse_boxes [] = []"
| "ellipse_boxes ((Ellipse b, ink) # ds) = b # ellipse_boxes ds"
| "ellipse_boxes ((Polygon ps, ink) # ds) = ellipse_boxes ds"

text \<open>The alpha channel of an \<^verbatim>\<open>RGBA\<close> ink.\<close>

definition alpha_of :: "colour \<Rightarrow> int" where
  "alpha_of ink = ink ! 3"

text \<open>The sizes of the images a stored file holds, in the order of the file.\<close>

definition frame_sizes :: "stored \<Rightarrow> (int \<times> int) list" where
  "frame_sizes f = (case f of PNG im \<Rightarrow> [size_of im] | ICO frames \<Rightarrow> map size_of frames)"

section \<open>Facts about the geometry\<close>

lemma scale_ge_half: "1 / 2 \<le> scale sz"
  by (simp add: scale_def)

lemma scale_mono: "a \<le> b \<Longrightarrow> scale a \<le> scale b"
  by (simp add: scale_def max_def divide_right_mono)

section \<open>What a call of \<^verbatim>\<open>create_ghost_mask\<close> does\<close>

lemma py_range_3: "py_range 3 = [0, 1, 2]"
  by (simp add: py_range_def upt_rec)

lemma int_of_float_scale: "0 \<le> k \<Longrightarrow> int_of_float (k * scale sz) = \<lfloor>k * scale sz\<rfloor>"
  using scale_ge_half [of sz] by (simp add: int_of_float_def)

lemma glow_radius_ge: "4 \<le> glow_radius sz"
proof -
  have "9 / 2 \<le> 9 * scale sz" using scale_ge_half [of sz] by simp
  then have "4 \<le> \<lfloor>9 * scale sz\<rfloor>" by (simp add: le_floor_iff)
  then show ?thesis by (simp add: glow_radius_def int_of_float_scale)
qed

lemma two_scale_ge: "1 \<le> int_of_float (2 * scale sz)"
proof -
  have "1 \<le> 2 * scale sz" using scale_ge_half [of sz] by simp
  then have "1 \<le> \<lfloor>2 * scale sz\<rfloor>" by (simp add: le_floor_iff)
  then show ?thesis by (simp add: int_of_float_scale)
qed

lemma half_scale_le: "int_of_float (1 / 2 * scale sz) \<le> int_of_float (2 * scale sz)"
proof -
  have "1 / 2 * scale sz \<le> 2 * scale sz" using scale_ge_half [of sz] by simp
  then have "\<lfloor>1 / 2 * scale sz\<rfloor> \<le> \<lfloor>2 * scale sz\<rfloor>" by (rule floor_mono)
  then show ?thesis using int_of_float_scale [of "1 / 2" sz] int_of_float_scale [of 2 sz] by simp
qed

lemma head_box_ok: "well_ordered (head_box sz)"
proof -
  have "2 \<le> head_width sz" and "2 \<le> head_height sz"
    by (simp_all add: head_width_def head_height_def)
  then show ?thesis by (simp add: well_ordered_def head_box_def)
qed

lemma socket_box_ok: "well_ordered (socket_box sz)"
  by (simp add: well_ordered_def socket_box_def eye_radius_def)

lemma glow_box_ok: "0 \<le> i \<Longrightarrow> i \<le> 2 \<Longrightarrow> well_ordered (glow_box sz i)"
  using glow_radius_ge [of sz] by (simp add: well_ordered_def glow_box_def)

lemma pupil_box_ok: "well_ordered (pupil_box sz)"
  by (simp add: well_ordered_def pupil_box_def pupil_radius_def)

lemma highlight_box_ok: "well_ordered (highlight_box sz)"
  using two_scale_ge [of sz] half_scale_le [of sz] by (simp add: well_ordered_def highlight_box_def)

lemma floor_scale_mono: "0 \<le> j \<Longrightarrow> j \<le> k \<Longrightarrow> int_of_float (j * scale sz) \<le> int_of_float (k * scale sz)"
proof -
  assume j: "0 \<le> j" and jk: "j \<le> k"
  have "0 \<le> scale sz" using scale_ge_half [of sz] by simp
  then have "j * scale sz \<le> k * scale sz" using jk by (simp add: mult_right_mono)
  then have "\<lfloor>j * scale sz\<rfloor> \<le> \<lfloor>k * scale sz\<rfloor>" by (rule floor_mono)
  then show ?thesis using j jk by (simp add: int_of_float_scale)
qed

lemma scale_eq: "32 \<le> sz \<Longrightarrow> scale sz = real_of_int sz / 64"
  by (simp add: scale_def max_def)

lemma glow_inner_positive: "(4 < glow_radius sz) = (36 \<le> sz)"
proof (cases "36 \<le> sz")
  case True
  then have "36 \<le> real_of_int sz" by simp
  then have "5 \<le> 9 * scale sz" using True by (simp add: scale_eq)
  then have "5 \<le> \<lfloor>9 * scale sz\<rfloor>" by (simp add: le_floor_iff)
  moreover have "glow_radius sz = max 2 \<lfloor>9 * scale sz\<rfloor>"
    by (simp add: glow_radius_def int_of_float_scale)
  ultimately show ?thesis using True by linarith
next
  case False
  then have "real_of_int sz \<le> 35" by simp
  then have "9 * scale sz < 5" by (simp add: scale_def max_def)
  then have "\<lfloor>9 * scale sz\<rfloor> < 5" by (simp add: floor_less_iff)
  moreover have "glow_radius sz = max 2 \<lfloor>9 * scale sz\<rfloor>"
    by (simp add: glow_radius_def int_of_float_scale)
  ultimately show ?thesis using False by linarith
qed

lemma highlight_positive:
  "(0 < int_of_float (2 * scale sz) - max 1 (int_of_float (1 / 2 * scale sz))) = (64 \<le> sz)"
proof (cases "64 \<le> sz")
  case True
  then have r: "64 \<le> real_of_int sz" by simp
  then have s1: "1 \<le> scale sz" using True by (simp add: scale_eq)
  then have "2 \<le> 2 * scale sz" by simp
  then have two: "2 \<le> \<lfloor>2 * scale sz\<rfloor>" by (simp add: le_floor_iff)
  have "1 / 2 * scale sz + 1 \<le> 2 * scale sz" using s1 by simp
  then have "\<lfloor>1 / 2 * scale sz + 1\<rfloor> \<le> \<lfloor>2 * scale sz\<rfloor>" by (rule floor_mono)
  then have "\<lfloor>1 / 2 * scale sz\<rfloor> + 1 \<le> \<lfloor>2 * scale sz\<rfloor>" by simp
  then show ?thesis using True two int_of_float_scale [of 2 sz] int_of_float_scale [of "1 / 2" sz]
    by linarith
next
  case False
  then have "real_of_int sz \<le> 63" by simp
  then have "2 * scale sz < 2" by (simp add: scale_def max_def)
  then have "\<lfloor>2 * scale sz\<rfloor> < 2" by (simp add: floor_less_iff)
  then show ?thesis using False two_scale_ge [of sz] int_of_float_scale [of 2 sz] by linarith
qed

lemma extents:
  "extent (head_box sz) = (2 * head_width sz, head_height sz + head_height sz div 2)"
  "extent (socket_box sz) = (2 * eye_radius sz, 2 * eye_radius sz)"
  "extent (glow_box sz i) = (2 * glow_radius sz - 4 * i, 2 * glow_radius sz - 4 * i)"
  "extent (pupil_box sz) = (2 * pupil_radius sz, 2 * pupil_radius sz)"
  "extent (highlight_box sz) =
     (int_of_float (2 * scale sz) - max 1 (int_of_float (1 / 2 * scale sz)),
      int_of_float (2 * scale sz) - max 1 (int_of_float (1 / 2 * scale sz)))"
  by (simp_all add: extent_def box_left_def box_right_def box_top_def box_bottom_def head_box_def
      socket_box_def glow_box_def pupil_box_def highlight_box_def)

lemma ghost_points_offsets:
  "list_all (\<lambda>p. center_y sz + 1 \<le> snd p) (ghost_points sz)"
  "list_all (\<lambda>p. fst p + 1 \<le> center_x sz) (take 5 (ghost_points sz))"
  "list_all (\<lambda>p. center_x sz + 1 \<le> fst p) (drop 6 (ghost_points sz))"
  by (simp_all add: ghost_points_def)

lemma box_edges:
  "box_left (a, b, c, d) = a" "box_top (a, b, c, d) = b" "box_right (a, b, c, d) = c"
  "box_bottom (a, b, c, d) = d"
  by (simp_all add: box_left_def box_top_def box_right_def box_bottom_def)

lemma paint_last:
  "paint (Draw (length h)) sh fill (w\<lparr>heap := h @ [im]\<rparr>) =
     (Inr (), w\<lparr>heap := h @ [im\<lparr>drawn := drawn im @ [(sh, getink fill)]\<rparr>]\<rparr>)"
  by (simp add: paint_def)

lemma create_ghost_mask_negative: "sz < 0 \<Longrightarrow> create_ghost_mask sz w = (Inl ValueError, w)"
  by (simp add: create_ghost_mask_def then_io_def Image_new_def)

lemma create_ghost_mask_small:
  "0 \<le> sz \<Longrightarrow> sz < 8 \<Longrightarrow>
   create_ghost_mask sz w =
     (Inr (length (heap w)),
      w\<lparr>heap := heap w @
        [\<lparr>mode = ''RGBA'', width = sz, height = sz, background = BG_COLOR @ [255], drawn = []\<rparr>]\<rparr>)"
  by (simp add: create_ghost_mask_def then_io_def Image_new_def return_io_def)

lemma create_ghost_mask_draws:
  "8 \<le> sz \<Longrightarrow>
   create_ghost_mask sz w =
     (Inr (length (heap w)),
      w\<lparr>heap := heap w @
        [\<lparr>mode = ''RGBA'', width = sz, height = sz, background = BG_COLOR @ [255],
          drawn =
            [(Polygon (ghost_points sz), GHOST_COLOR @ [255]),
             (Ellipse (head_box sz), GHOST_COLOR @ [255]),
             (Ellipse (socket_box sz), BG_COLOR @ [255]),
             (Ellipse (glow_box sz 0), NEON_COLOR @ [60]),
             (Ellipse (glow_box sz 1), NEON_COLOR @ [45]),
             (Ellipse (glow_box sz 2), NEON_COLOR @ [30]),
             (Ellipse (pupil_box sz), NEON_COLOR @ [255]),
             (Ellipse (highlight_box sz), [200, 255, 230, 255])]\<rparr>]\<rparr>)"
  by (simp add: create_ghost_mask_def then_io_def Image_new_def return_io_def polygon_def
      ellipse_def py_range_3 paint_last Let_def head_box_ok socket_box_ok glow_box_ok pupil_box_ok
      highlight_box_ok getink_def BG_COLOR_def GHOST_COLOR_def NEON_COLOR_def)

lemma foldl_ink_length:
  "length c0 = n \<Longrightarrow> list_all (\<lambda>d. length (snd d) = n) ds \<Longrightarrow>
   length (foldl (\<lambda>c (sh, ink). if covers sh p then ink else c) c0 ds) = n"
  by (induction ds arbitrary: c0) (auto split: prod.splits)

lemma returned_fresh: "returned (Inr (length h), w\<lparr>heap := h @ [im]\<rparr>) = Some im"
  by (simp add: returned_def)

lemma rendered_small:
  "0 \<le> sz \<Longrightarrow> sz < 8 \<Longrightarrow>
   rendered sz =
     Some \<lparr>mode = ''RGBA'', width = sz, height = sz, background = BG_COLOR @ [255], drawn = []\<rparr>"
  by (simp add: rendered_def initial_def create_ghost_mask_small returned_def)

lemma rendered_draws:
  "8 \<le> sz \<Longrightarrow>
   rendered sz =
     Some \<lparr>mode = ''RGBA'', width = sz, height = sz, background = BG_COLOR @ [255],
          drawn =
            [(Polygon (ghost_points sz), GHOST_COLOR @ [255]),
             (Ellipse (head_box sz), GHOST_COLOR @ [255]),
             (Ellipse (socket_box sz), BG_COLOR @ [255]),
             (Ellipse (glow_box sz 0), NEON_COLOR @ [60]),
             (Ellipse (glow_box sz 1), NEON_COLOR @ [45]),
             (Ellipse (glow_box sz 2), NEON_COLOR @ [30]),
             (Ellipse (pupil_box sz), NEON_COLOR @ [255]),
             (Ellipse (highlight_box sz), [200, 255, 230, 255])]\<rparr>"
  by (simp add: rendered_def initial_def create_ghost_mask_draws returned_def)

lemma rendered_negative: "sz < 0 \<Longrightarrow> rendered sz = None"
  by (simp add: rendered_def create_ghost_mask_negative returned_def)

lemma create_ghost_mask_rendered:
  "0 \<le> sz \<Longrightarrow>
   \<exists>im. rendered sz = Some im \<and> size_of im = (sz, sz) \<and>
     (\<forall>w. create_ghost_mask sz w = (Inr (length (heap w)), w\<lparr>heap := heap w @ [im]\<rparr>))"
proof (cases "sz < 8")
  case True
  assume "0 \<le> sz"
  with True show ?thesis
    by (simp add: rendered_small create_ghost_mask_small size_of_def)
next
  case False
  then have "8 \<le> sz" by simp
  then show ?thesis
    by (simp add: rendered_draws create_ghost_mask_draws size_of_def)
qed

section \<open>The canvas\<close>

text \<open>
  Claim C1. For every size of at least 8, \<^verbatim>\<open>create_ghost_mask(size)\<close> returns a canvas:
  an image of mode \<^verbatim>\<open>RGBA\<close>, \<open>size\<close> pixels wide and \<open>size\<close> pixels high. Its pixels
  are exactly those at the coordinates \<open>(x, y)\<close> with \<open>0 \<le> x, y < size\<close>, and each of
  them has four channels, whatever the scan conversion of the library.
\<close>

theorem canvas_size_rgba:
  "8 \<le> sz \<Longrightarrow>
   \<exists>img. returned (create_ghost_mask sz w) = Some img \<and>
     mode img = ''RGBA'' \<and> width img = sz \<and> height img = sz \<and>
     (\<forall>covers x y. (getpixel covers img (x, y) \<noteq> None) = (0 \<le> x \<and> x < sz \<and> 0 \<le> y \<and> y < sz)) \<and>
     (\<forall>covers x y c. getpixel covers img (x, y) = Some c \<longrightarrow> length c = 4)"
proof -
  assume sz: "8 \<le> sz"
  let ?img = "the (returned (create_ghost_mask sz w))"
  have run: "returned (create_ghost_mask sz w) = Some ?img"
    by (simp add: create_ghost_mask_draws [OF sz] returned_fresh)
  have m: "mode ?img = ''RGBA''" and wd: "width ?img = sz" and ht: "height ?img = sz"
    and bg: "length (background ?img) = 4"
    and inks: "list_all (\<lambda>d. length (snd d) = 4) (drawn ?img)"
    by (simp_all add: create_ghost_mask_draws [OF sz] returned_fresh BG_COLOR_def GHOST_COLOR_def
        NEON_COLOR_def)
  have inside: "(getpixel covers ?img (x, y) \<noteq> None) = (0 \<le> x \<and> x < sz \<and> 0 \<le> y \<and> y < sz)"
    for covers x y
    by (simp add: getpixel_def wd ht)
  have channels: "length c = 4" if "getpixel covers ?img (x, y) = Some c" for covers x y c
    using that foldl_ink_length [OF bg inks] by (auto simp: getpixel_def split: if_splits)
  from run m wd ht inside channels show ?thesis by blast
qed

theorem canvas_size_rgba_witness:
  "(8::int) \<le> 16 \<and>
   (\<exists>img. returned (create_ghost_mask 16 initial) = Some img \<and>
     mode img = ''RGBA'' \<and> width img = 16 \<and> height img = 16 \<and>
     (\<forall>covers x y. (getpixel covers img (x, y) \<noteq> None) = (0 \<le> x \<and> x < 16 \<and> 0 \<le> y \<and> y < 16)) \<and>
     (\<forall>covers x y c. getpixel covers img (x, y) = Some c \<longrightarrow> length c = 4))"
  using canvas_size_rgba [of 16 initial] by simp

text \<open>
  Claim C2. For every positive size below 8, \<^verbatim>\<open>create_ghost_mask(size)\<close> returns a canvas
  of that size on which nothing is drawn: every pixel of it is \<^verbatim>\<open>BG_COLOR\<close> with alpha
  255.
\<close>

theorem small_canvas_background:
  "0 < sz \<Longrightarrow> sz < 8 \<Longrightarrow>
   \<exists>img. returned (create_ghost_mask sz w) = Some img \<and>
     width img = sz \<and> height img = sz \<and> drawn img = [] \<and>
     (\<forall>covers x y. 0 \<le> x \<and> x < sz \<and> 0 \<le> y \<and> y < sz \<longrightarrow>
        getpixel covers img (x, y) = Some (BG_COLOR @ [255]))"
  by (simp add: create_ghost_mask_small returned_fresh getpixel_def)

theorem small_canvas_background_witness:
  "(0::int) < 5 \<and> (5::int) < 8 \<and>
   (\<exists>img. returned (create_ghost_mask 5 initial) = Some img \<and>
     width img = 5 \<and> height img = 5 \<and> drawn img = [] \<and>
     (\<forall>covers x y. 0 \<le> x \<and> x < 5 \<and> 0 \<le> y \<and> y < 5 \<longrightarrow>
        getpixel covers img (x, y) = Some (BG_COLOR @ [255])))"
  using small_canvas_background [of 5 initial] by simp

section \<open>The scale factor\<close>

text \<open>
  Claim C5. The scale factor of \<^verbatim>\<open>create_ghost_mask(size)\<close> is \<open>max (size / 64) 0.5\<close>;
  it is never below 0.5 and does not decrease when the size grows.
\<close>

theorem scale_factor:
  "a \<le> b \<Longrightarrow>
   scale a = max (real_of_int a / 64) (1 / 2) \<and> 1 / 2 \<le> scale a \<and> scale a \<le> scale b"
  by (simp add: scale_def max_def divide_right_mono)

theorem scale_factor_witness:
  "(16::int) \<le> 100 \<and>
   scale 16 = max (real_of_int 16 / 64) (1 / 2) \<and> 1 / 2 \<le> scale 16 \<and> scale 16 \<le> scale 100"
  using scale_factor [of 16 100] by simp

section \<open>The shapes\<close>

text \<open>
  Claim C10. For every size of at least 8, \<^verbatim>\<open>create_ghost_mask(size)\<close> returns without an
  exception, the seven ellipse calls have received the boxes of the head, the socket,
  the three glow rings, the pupil and the highlight, in this order, and each of these
  boxes is well ordered: its left edge is not right of its right edge and its top edge
  not below its bottom edge.
\<close>

theorem ellipse_boxes_well_ordered:
  "8 \<le> sz \<Longrightarrow>
   \<exists>img. returned (create_ghost_mask sz w) = Some img \<and>
     ellipse_boxes (drawn img) =
       [head_box sz, socket_box sz, glow_box sz 0, glow_box sz 1, glow_box sz 2, pupil_box sz,
        highlight_box sz] \<and>
     list_all well_ordered (ellipse_boxes (drawn img))"
  by (simp add: create_ghost_mask_draws returned_fresh head_box_ok socket_box_ok glow_box_ok
      pupil_box_ok highlight_box_ok)

theorem ellipse_boxes_well_ordered_witness:
  "(8::int) \<le> 16 \<and>
   (\<exists>img. returned (create_ghost_mask 16 initial) = Some img \<and>
     ellipse_boxes (drawn img) =
       [(- 4, - 5, 20, 11), (1, 2, 7, 8), (0, 1, 8, 9), (2, 3, 6, 7), (4, 5, 4, 5), (2, 3, 6, 7),
        (3, 4, 3, 4)] \<and>
     list_all well_ordered (ellipse_boxes (drawn img)))"
proof -
  have boxes:
    "[head_box 16, socket_box 16, glow_box 16 0, glow_box 16 1, glow_box 16 2, pupil_box 16,
      highlight_box 16] =
     [(- 4, - 5, 20, 11), (1, 2, 7, 8), (0, 1, 8, 9), (2, 3, 6, 7), (4, 5, 4, 5), (2, 3, 6, 7),
      (3, 4, 3, 4)]"
    by (simp add: head_box_def socket_box_def glow_box_def pupil_box_def highlight_box_def
        center_x_def center_y_def head_width_def head_height_def eye_offset_x_def eye_y_def
        eye_radius_def glow_radius_def pupil_radius_def scale_def int_of_float_def)
  show ?thesis
    using ellipse_boxes_well_ordered [of 16 initial] unfolding boxes by simp
qed

text \<open>
  Claim C3, as the code has it. For every size of at least 8, every named radius and
  offset is at least 1 pixel (the head's half axes at least 2, the glow radius at least
  4), \<^verbatim>\<open>int(2 * s)\<close> is at least 1, every vertex of the silhouette lies at least 1
  pixel below the centre and, the middle one apart, at least 1 pixel to its left or
  right, and no ellipse box has a negative extent. The extents are those of the list
  below. The clamps are on the single measurements, not on their differences: the
  innermost glow ring has the radius \<^verbatim>\<open>glow_radius - 4\<close>, which is positive exactly from
  size 36 on, and the extent of the highlight is positive exactly from size 64 on.
\<close>

theorem measurements_at_least_one:
  "8 \<le> sz \<Longrightarrow>
   2 \<le> head_width sz \<and> 2 \<le> head_height sz \<and> 1 \<le> eye_offset_x sz \<and> 1 \<le> eye_radius sz \<and>
   4 \<le> glow_radius sz \<and> 1 \<le> pupil_radius sz \<and> 1 \<le> highlight_radius sz \<and>
   1 \<le> int_of_float (2 * scale sz) \<and>
   center_y sz + 1 \<le> sz div 2 \<and> eye_y sz + 1 \<le> center_y sz \<and>
   list_all (\<lambda>p. center_y sz + 1 \<le> snd p) (ghost_points sz) \<and>
   list_all (\<lambda>p. fst p + 1 \<le> center_x sz) (take 5 (ghost_points sz)) \<and>
   list_all (\<lambda>p. center_x sz + 1 \<le> fst p) (drop 6 (ghost_points sz)) \<and>
   (\<exists>img. returned (create_ghost_mask sz w) = Some img \<and>
      map extent (ellipse_boxes (drawn img)) =
        [(2 * head_width sz, head_height sz + head_height sz div 2),
         (2 * eye_radius sz, 2 * eye_radius sz),
         (2 * glow_radius sz, 2 * glow_radius sz),
         (2 * (glow_radius sz - 2), 2 * (glow_radius sz - 2)),
         (2 * (glow_radius sz - 4), 2 * (glow_radius sz - 4)),
         (2 * pupil_radius sz, 2 * pupil_radius sz),
         (int_of_float (2 * scale sz) - max 1 (int_of_float (1 / 2 * scale sz)),
          int_of_float (2 * scale sz) - max 1 (int_of_float (1 / 2 * scale sz)))] \<and>
      list_all (\<lambda>e. 0 \<le> fst e \<and> 0 \<le> snd e) (map extent (ellipse_boxes (drawn img)))) \<and>
   (0 < glow_radius sz - 4) = (36 \<le> sz) \<and>
   (0 < int_of_float (2 * scale sz) - max 1 (int_of_float (1 / 2 * scale sz))) = (64 \<le> sz)"
proof -
  assume sz: "8 \<le> sz"
  have named:
    "2 \<le> head_width sz" "2 \<le> head_height sz" "1 \<le> eye_offset_x sz" "1 \<le> eye_radius sz"
    "1 \<le> pupil_radius sz" "1 \<le> highlight_radius sz"
    "center_y sz + 1 \<le> sz div 2" "eye_y sz + 1 \<le> center_y sz"
    by (simp_all add: head_width_def head_height_def eye_offset_x_def eye_radius_def
        pupil_radius_def highlight_radius_def center_y_def eye_y_def)
  have hl: "0 \<le> int_of_float (2 * scale sz) - max 1 (int_of_float (1 / 2 * scale sz))"
    using two_scale_ge [of sz] half_scale_le [of sz] by linarith
  have inner: "(0 < glow_radius sz - 4) = (36 \<le> sz)"
    using glow_inner_positive [of sz] by simp
  have boxes:
    "\<exists>img. returned (create_ghost_mask sz w) = Some img \<and>
      map extent (ellipse_boxes (drawn img)) =
        [(2 * head_width sz, head_height sz + head_height sz div 2),
         (2 * eye_radius sz, 2 * eye_radius sz),
         (2 * glow_radius sz, 2 * glow_radius sz),
         (2 * (glow_radius sz - 2), 2 * (glow_radius sz - 2)),
         (2 * (glow_radius sz - 4), 2 * (glow_radius sz - 4)),
         (2 * pupil_radius sz, 2 * pupil_radius sz),
         (int_of_float (2 * scale sz) - max 1 (int_of_float (1 / 2 * scale sz)),
          int_of_float (2 * scale sz) - max 1 (int_of_float (1 / 2 * scale sz)))] \<and>
      list_all (\<lambda>e. 0 \<le> fst e \<and> 0 \<le> snd e) (map extent (ellipse_boxes (drawn img)))"
    using named glow_radius_ge [of sz] hl
    by (simp add: create_ghost_mask_draws [OF sz] returned_fresh extents)
  show ?thesis
    using named glow_radius_ge [of sz] two_scale_ge [of sz] ghost_points_offsets [of sz] boxes
      inner highlight_positive [of sz]
    by blast
qed

theorem measurements_at_least_one_witness:
  "(8::int) \<le> 64 \<and>
   2 \<le> head_width 64 \<and> 2 \<le> head_height 64 \<and> 1 \<le> eye_offset_x 64 \<and> 1 \<le> eye_radius 64 \<and>
   4 \<le> glow_radius 64 \<and> 1 \<le> pupil_radius 64 \<and> 1 \<le> highlight_radius 64 \<and>
   1 \<le> int_of_float (2 * scale 64) \<and>
   (\<exists>img. returned (create_ghost_mask 64 initial) = Some img \<and>
      map extent (ellipse_boxes (drawn img)) =
        [(48, 33), (12, 12), (18, 18), (14, 14), (10, 10), (8, 8), (1, 1)])"
proof -
  have vals:
    "head_width 64 = 24" "head_height 64 = 22" "eye_radius 64 = 6" "glow_radius 64 = 9"
    "pupil_radius 64 = 4" "int_of_float (2 * scale 64) = 2" "int_of_float (1 / 2 * scale 64) = 0"
    by (simp_all add: head_width_def head_height_def eye_radius_def glow_radius_def
        pupil_radius_def scale_def int_of_float_def)
  show ?thesis
    using measurements_at_least_one [of 64 initial] unfolding vals by auto
qed

text \<open>
  At size 16 the innermost glow ring and the highlight have an extent of zero: the
  measurements are clamped one by one, their differences are not.
\<close>

theorem degenerate_shapes_at_16:
  "map_option (map extent \<circ> ellipse_boxes \<circ> drawn) (returned (create_ghost_mask 16 initial)) =
     Some [(24, 16), (6, 6), (8, 8), (4, 4), (0, 0), (4, 4), (0, 0)] \<and>
   glow_radius 16 - 2 * 2 = 0"
proof -
  have vals:
    "head_width 16 = 12" "head_height 16 = 11" "eye_radius 16 = 3" "glow_radius 16 = 4"
    "pupil_radius 16 = 2" "int_of_float (2 * scale 16) = 1" "int_of_float (scale 16 / 2) = 0"
    by (simp_all add: head_width_def head_height_def eye_radius_def glow_radius_def
        pupil_radius_def scale_def int_of_float_def)
  show ?thesis
    by (simp add: create_ghost_mask_draws returned_fresh extents vals)
qed

section \<open>The eye\<close>

text \<open>
  Claim C4. The loop of the glow rings runs three times, with the alpha values 60, 45
  and 30 whatever the size; for every size of at least 8 the fourth, fifth and sixth
  primitive drawn are the three glow rings, outermost first, in the neon colour with
  these alpha values, each 15 below the one before.
\<close>

theorem glow_alphas:
  "map (\<lambda>i. 60 - i * 15) (py_range 3) = [60, 45, 30] \<and>
   (8 \<le> sz \<longrightarrow>
     (\<exists>img. returned (create_ghost_mask sz w) = Some img \<and>
       map fst (take 3 (drop 3 (drawn img))) =
         [Ellipse (glow_box sz 0), Ellipse (glow_box sz 1), Ellipse (glow_box sz 2)] \<and>
       map snd (take 3 (drop 3 (drawn img))) =
         [NEON_COLOR @ [60], NEON_COLOR @ [45], NEON_COLOR @ [30]] \<and>
       map (alpha_of \<circ> snd) (take 3 (drop 3 (drawn img))) = [60, 45, 30]))"
  by (simp add: py_range_3 create_ghost_mask_draws returned_fresh alpha_of_def NEON_COLOR_def)

theorem glow_alphas_witness:
  "(8::int) \<le> 16 \<and>
   (\<exists>img. returned (create_ghost_mask 16 initial) = Some img \<and>
     map fst (take 3 (drop 3 (drawn img))) =
       [Ellipse (glow_box 16 0), Ellipse (glow_box 16 1), Ellipse (glow_box 16 2)] \<and>
     map snd (take 3 (drop 3 (drawn img))) =
       [NEON_COLOR @ [60], NEON_COLOR @ [45], NEON_COLOR @ [30]] \<and>
     map (alpha_of \<circ> snd) (take 3 (drop 3 (drawn img))) = [60, 45, 30])"
  using glow_alphas [of 16 initial] by simp

text \<open>
  Claim C7. For every size of at least 8 the eye is drawn, after the silhouette and the
  head, in this order: the socket, opaque, in the background colour; three glow rings in
  the neon colour with the alpha values 60, 45 and 30, each smaller than the one before;
  the pupil, opaque, in the neon colour; the highlight, opaque, in the near-white colour
  (200, 255, 230). The box of the highlight lies within the box of the pupil, and its
  right and bottom edges lie left of and above the centre of the pupil.
\<close>

theorem eye_layers:
  "8 \<le> sz \<Longrightarrow>
   \<exists>img. returned (create_ghost_mask sz w) = Some img \<and>
     drop 2 (drawn img) =
       [(Ellipse (socket_box sz), BG_COLOR @ [255]),
        (Ellipse (glow_box sz 0), NEON_COLOR @ [60]),
        (Ellipse (glow_box sz 1), NEON_COLOR @ [45]),
        (Ellipse (glow_box sz 2), NEON_COLOR @ [30]),
        (Ellipse (pupil_box sz), NEON_COLOR @ [255]),
        (Ellipse (highlight_box sz), [200, 255, 230, 255])] \<and>
     fst (extent (glow_box sz 2)) < fst (extent (glow_box sz 1)) \<and>
     fst (extent (glow_box sz 1)) < fst (extent (glow_box sz 0)) \<and>
     snd (extent (glow_box sz 2)) < snd (extent (glow_box sz 1)) \<and>
     snd (extent (glow_box sz 1)) < snd (extent (glow_box sz 0)) \<and>
     box_left (pupil_box sz) \<le> box_left (highlight_box sz) \<and>
     box_top (pupil_box sz) \<le> box_top (highlight_box sz) \<and>
     2 * box_right (highlight_box sz) < box_left (pupil_box sz) + box_right (pupil_box sz) \<and>
     2 * box_bottom (highlight_box sz) < box_top (pupil_box sz) + box_bottom (pupil_box sz)"
proof -
  assume sz: "8 \<le> sz"
  have "int_of_float (2 * scale sz) \<le> int_of_float (4 * scale sz)"
    by (rule floor_scale_mono) simp_all
  then have inside: "int_of_float (2 * scale sz) \<le> pupil_radius sz"
    by (simp add: pupil_radius_def)
  show ?thesis
    using inside
    by (simp add: create_ghost_mask_draws [OF sz] returned_fresh extents box_edges pupil_box_def
        highlight_box_def)
qed

theorem eye_layers_witness:
  "(8::int) \<le> 64 \<and>
   (\<exists>img. returned (create_ghost_mask 64 initial) = Some img \<and>
     drop 2 (drawn img) =
       [(Ellipse (socket_box 64), BG_COLOR @ [255]),
        (Ellipse (glow_box 64 0), NEON_COLOR @ [60]),
        (Ellipse (glow_box 64 1), NEON_COLOR @ [45]),
        (Ellipse (glow_box 64 2), NEON_COLOR @ [30]),
        (Ellipse (pupil_box 64), NEON_COLOR @ [255]),
        (Ellipse (highlight_box 64), [200, 255, 230, 255])]) \<and>
   pupil_box 64 = (20, 22, 28, 30) \<and> highlight_box 64 = (22, 24, 23, 25)"
proof -
  have boxes: "pupil_box 64 = (20, 22, 28, 30)" "highlight_box 64 = (22, 24, 23, 25)"
    by (simp_all add: pupil_box_def highlight_box_def center_x_def center_y_def eye_offset_x_def
        eye_y_def pupil_radius_def scale_def int_of_float_def)
  show ?thesis
    using eye_layers [of 64 initial] boxes by auto
qed

section \<open>Effects\<close>

text \<open>
  Claim C8. A call of \<^verbatim>\<open>create_ghost_mask(size)\<close> writes no file and prints nothing, and
  it leaves every image object that existed before the call as it was: all it does to
  the state is to allocate the canvas it returns. Whether it returns or raises, and the
  canvas it returns, depend on the size alone: two calls with the same size, in whatever
  states, return canvases that are equal, and so equal pixel by pixel under any scan
  conversion.
\<close>

theorem create_ghost_mask_pure:
  "files (snd (create_ghost_mask sz w)) = files w \<and>
   stdout (snd (create_ghost_mask sz w)) = stdout w \<and>
   take (length (heap w)) (heap (snd (create_ghost_mask sz w))) = heap w \<and>
   returned (create_ghost_mask sz w) = returned (create_ghost_mask sz w') \<and>
   isl (fst (create_ghost_mask sz w)) = isl (fst (create_ghost_mask sz w')) \<and>
   map_option (\<lambda>im. getpixel covers im p) (returned (create_ghost_mask sz w)) =
     map_option (\<lambda>im. getpixel covers im p) (returned (create_ghost_mask sz w'))"
proof (cases "sz < 0")
  case True
  then show ?thesis
    by (simp add: create_ghost_mask_negative returned_def)
next
  case False
  then have "0 \<le> sz" by simp
  from create_ghost_mask_rendered [OF this] obtain im where
    run: "\<And>w. create_ghost_mask sz w = (Inr (length (heap w)), w\<lparr>heap := heap w @ [im]\<rparr>)"
    by blast
  show ?thesis
    by (simp add: run returned_fresh)
qed

section \<open>The export\<close>

lemma render_step:
  assumes "rendered sz = Some im" and "size_of im = (sz, sz)"
    and "\<And>w. create_ghost_mask sz w = (Inr (length (heap w)), w\<lparr>heap := heap w @ [im]\<rparr>)"
  shows "then_io (create_ghost_mask sz) (\<lambda>img. then_io (resize L img (sz, sz) LANCZOS) k) w =
         k (Suc (length (heap w))) (w\<lparr>heap := heap w @ [im, im]\<rparr>)"
  using assms by (simp add: then_io_def resize_def)

lemma render_sizes_copies:
  "list_all (\<lambda>sz. 0 \<le> sz) sizes \<Longrightarrow>
   \<exists>new ext. render_sizes L sizes images w = (Inr (images @ new), w\<lparr>heap := heap w @ ext\<rparr>) \<and>
     list_all (\<lambda>a. length (heap w) \<le> a \<and> a < length (heap w) + length ext) new \<and>
     map (\<lambda>a. Some (ext ! (a - length (heap w)))) new = map rendered sizes"
proof (induction sizes arbitrary: images w)
  case Nil
  have "render_sizes L [] images w = (Inr (images @ []), w\<lparr>heap := heap w @ []\<rparr>)"
    by (simp add: return_io_def)
  then show ?case
    by (intro exI [of _ "[]"]) simp
next
  case (Cons sz sizes)
  then have sz: "0 \<le> sz" and rest: "list_all (\<lambda>sz. 0 \<le> sz) sizes" by simp_all
  from create_ghost_mask_rendered [OF sz] obtain im where
    im: "rendered sz = Some im" "size_of im = (sz, sz)"
    and run: "\<And>w. create_ghost_mask sz w = (Inr (length (heap w)), w\<lparr>heap := heap w @ [im]\<rparr>)"
    by blast
  let ?w1 = "w\<lparr>heap := heap w @ [im, im]\<rparr>"
  let ?a = "Suc (length (heap w))"
  from Cons.IH [OF rest, of "images @ [?a]" ?w1] obtain new ext where
    r: "render_sizes L sizes (images @ [?a]) ?w1 = (Inr ((images @ [?a]) @ new), ?w1\<lparr>heap := heap ?w1 @ ext\<rparr>)"
    and n: "list_all (\<lambda>a. length (heap ?w1) \<le> a \<and> a < length (heap ?w1) + length ext) new"
    and m: "map (\<lambda>a. Some (ext ! (a - length (heap ?w1)))) new = map rendered sizes"
    by blast
  have step: "render_sizes L (sz # sizes) images w =
      (Inr (images @ (?a # new)), w\<lparr>heap := heap w @ ([im, im] @ ext)\<rparr>)"
    using r by (simp add: render_step [OF im run])
  have n': "list_all (\<lambda>a. length (heap w) \<le> a \<and> a < length (heap w) + length ([im, im] @ ext)) (?a # new)"
    using n by (auto simp: list_all_iff)
  have "map (\<lambda>a. Some (([im, im] @ ext) ! (a - length (heap w)))) new =
        map (\<lambda>a. Some (ext ! (a - length (heap ?w1)))) new"
  proof (rule map_cong [OF refl])
    fix a assume "a \<in> set new"
    with n have "length (heap w) + 2 \<le> a" by (auto simp: list_all_iff)
    then have "a - length (heap w) = Suc (Suc (a - (length (heap w) + 2)))" by simp
    then show "Some (([im, im] @ ext) ! (a - length (heap w))) = Some (ext ! (a - length (heap ?w1)))"
      by simp
  qed
  with m im have m': "map (\<lambda>a. Some (([im, im] @ ext) ! (a - length (heap w)))) (?a # new) =
      map rendered (sz # sizes)"
    by simp
  show ?case
    by (rule exI [of _ "?a # new"], rule exI [of _ "[im, im] @ ext"]) (intro conjI step n' m')
qed

lemma ico_frames_provided:
  "list_all (\<lambda>s. \<exists>im \<in> set ims. size_of im = s) ss \<Longrightarrow> set (ico_frames L ims orig ss) \<subseteq> set ims"
proof (induction ss)
  case Nil
  then show ?case by simp
next
  case (Cons s ss)
  then obtain im where "im \<in> set ims" "size_of im = s" by auto
  then have "find (\<lambda>im. size_of im = s) ims \<noteq> None"
    by (auto simp: find_None_iff)
  then obtain f where f: "find (\<lambda>im. size_of im = s) ims = Some f" by blast
  then have "f \<in> set ims"
    by (auto simp: find_Some_iff)
  with Cons f show ?case by simp
qed

lemma render_sizes_run:
  assumes "list_all (\<lambda>sz. 0 \<le> sz) sizes"
  shows "\<exists>images w1. render_sizes L sizes [] w = (Inr images, w1) \<and>
     files w1 = files w \<and> stdout w1 = stdout w \<and>
     list_all (\<lambda>a. a < length (heap w1)) images \<and>
     map (\<lambda>a. Some (heap w1 ! a)) images = map rendered sizes"
proof -
  from render_sizes_copies [OF assms, of L "[]" w] obtain new ext where
    r: "render_sizes L sizes [] w = (Inr new, w\<lparr>heap := heap w @ ext\<rparr>)"
    and n: "list_all (\<lambda>a. length (heap w) \<le> a \<and> a < length (heap w) + length ext) new"
    and m: "map (\<lambda>a. Some (ext ! (a - length (heap w)))) new = map rendered sizes"
    by auto
  let ?w1 = "w\<lparr>heap := heap w @ ext\<rparr>"
  have "map (\<lambda>a. Some (heap ?w1 ! a)) new = map (\<lambda>a. Some (ext ! (a - length (heap w)))) new"
  proof (rule map_cong [OF refl])
    fix a assume "a \<in> set new"
    with n have "length (heap w) \<le> a" by (auto simp: list_all_iff)
    then show "Some (heap ?w1 ! a) = Some (ext ! (a - length (heap w)))"
      by (simp add: nth_append)
  qed
  with m have m1: "map (\<lambda>a. Some (heap ?w1 ! a)) new = map rendered sizes" by simp
  have n1: "list_all (\<lambda>a. a < length (heap ?w1)) new"
    using n by (auto simp: list_all_iff)
  show ?thesis
    using r n1 m1 by (intro exI [of _ new] exI [of _ ?w1]) simp
qed

lemma rendered_width:
  assumes "0 \<le> sz" and "rendered sz = Some f"
  shows "rendered (width f) = Some f"
proof -
  from create_ghost_mask_rendered [OF assms(1)] assms(2) have "size_of f = (sz, sz)" by auto
  then have "width f = sz" by (simp add: size_of_def)
  with assms(2) show ?thesis by simp
qed

lemma main_run:
  "\<exists>w. main L initial = (Inr (), w) \<and>
     files w =
       [ico_path \<mapsto> ICO [the (rendered 16)],
        public_dir @ ''favicon-16x16.png'' \<mapsto> PNG (the (rendered 16)),
        public_dir @ ''favicon-32x32.png'' \<mapsto> PNG (the (rendered 32)),
        public_dir @ ''apple-touch-icon.png'' \<mapsto> PNG (the (rendered 180))]"
  by (simp add: main_def create_favicon_ico_def create_png_def default_sizes_def then_io_def
      return_io_def print_def save_png_def save_ico_def sizes_of_def resize_def size_of_def
      initial_def create_ghost_mask_draws rendered_draws Let_def)

text \<open>
  Claim C9. In \<^verbatim>\<open>create_favicon_ico\<close>, for a list of sizes none of which is negative,
  every canvas \<^verbatim>\<open>create_ghost_mask(size)\<close> returns is \<open>size\<close> wide and \<open>size\<close> high, so
  that \<^verbatim>\<open>resize((size, size))\<close> copies it, whatever the resampling kernel: the images the
  loop collects are, in order, equal to the rendered canvases of the sizes, and every
  frame written into the icon file is equal to the rendered canvas of its own width.
\<close>

theorem resize_keeps_canvas:
  "list_all (\<lambda>sz. 0 \<le> sz) sizes \<Longrightarrow> sizes \<noteq> [] \<Longrightarrow>
   list_all (\<lambda>sz. map_option size_of (rendered sz) = Some (sz, sz)) sizes \<and>
   (\<exists>images w1. render_sizes L sizes [] w = (Inr images, w1) \<and>
      list_all (\<lambda>a. a < length (heap w1)) images \<and>
      map (\<lambda>a. Some (heap w1 ! a)) images = map rendered sizes) \<and>
   (\<exists>frames w2. create_favicon_ico L sizes w = (Inr ico_path, w2) \<and>
      files w2 ico_path = Some (ICO frames) \<and>
      list_all (\<lambda>f. rendered (width f) = Some f) frames)"
proof -
  assume nonneg: "list_all (\<lambda>sz. 0 \<le> sz) sizes" and nonempty: "sizes \<noteq> []"
  have dims: "list_all (\<lambda>sz. map_option size_of (rendered sz) = Some (sz, sz)) sizes"
    unfolding list_all_iff
  proof
    fix sz assume "sz \<in> set sizes"
    with nonneg have "0 \<le> sz" by (auto simp: list_all_iff)
    from create_ghost_mask_rendered [OF this]
    show "map_option size_of (rendered sz) = Some (sz, sz)" by auto
  qed
  from render_sizes_run [OF nonneg, of L w] obtain images w1 where
    r: "render_sizes L sizes [] w = (Inr images, w1)"
    and n: "list_all (\<lambda>a. a < length (heap w1)) images"
    and m: "map (\<lambda>a. Some (heap w1 ! a)) images = map rendered sizes"
    by blast
  from m have "length images = length sizes" by (rule map_eq_imp_length_eq)
  with nonempty obtain first rest where images: "images = first # rest"
    by (cases images) auto
  let ?ims = "map (\<lambda>a. heap w1 ! a) images"
  let ?frames = "ico_frames L ?ims (size_of (heap w1 ! first)) (sort (remdups (map size_of ?ims)))"
  let ?w2 = "w1\<lparr>files := (files w1)(ico_path \<mapsto> ICO ?frames), stdout := stdout w1 @ [''Created '' @ ico_path]\<rparr>"
  have run: "create_favicon_ico L sizes w = (Inr ico_path, ?w2)"
    by (simp add: create_favicon_ico_def then_io_def r images sizes_of_def save_ico_def print_def
        return_io_def size_of_def comp_def Let_def)
  have ims: "map Some ?ims = map rendered sizes"
    using m by (simp add: comp_def)
  have each: "rendered (width f) = Some f" if "f \<in> set ?ims" for f
  proof -
    from that obtain a where "a \<in> set images" "f = heap w1 ! a" by auto
    then have "Some f \<in> set (map (\<lambda>a. Some (heap w1 ! a)) images)" by auto
    then have "Some f \<in> set (map rendered sizes)" using m by simp
    then obtain sz where "sz \<in> set sizes" "rendered sz = Some f" by auto
    moreover from this nonneg have "0 \<le> sz" by (auto simp: list_all_iff)
    ultimately show ?thesis by (auto intro: rendered_width)
  qed
  have "list_all (\<lambda>s. \<exists>im \<in> set ?ims. size_of im = s) (sort (remdups (map size_of ?ims)))"
    by (auto simp: list_all_iff)
  then have "set ?frames \<subseteq> set ?ims" by (rule ico_frames_provided)
  with each have frames: "list_all (\<lambda>f. rendered (width f) = Some f) ?frames"
    by (auto simp: list_all_iff)
  have written: "files ?w2 ico_path = Some (ICO ?frames)" by simp
  have a: "\<exists>images w1. render_sizes L sizes [] w = (Inr images, w1) \<and>
      list_all (\<lambda>a. a < length (heap w1)) images \<and>
      map (\<lambda>a. Some (heap w1 ! a)) images = map rendered sizes"
    using r n m by blast
  have b: "\<exists>frames w2. create_favicon_ico L sizes w = (Inr ico_path, w2) \<and>
      files w2 ico_path = Some (ICO frames) \<and>
      list_all (\<lambda>f. rendered (width f) = Some f) frames"
    by (rule exI [of _ ?frames], rule exI [of _ ?w2]) (intro conjI run written frames)
  from dims a b show ?thesis by (intro conjI)
qed

theorem resize_keeps_canvas_witness:
  "list_all (\<lambda>sz. 0 \<le> sz) default_sizes \<and> default_sizes \<noteq> [] \<and>
   (\<forall>L w.
     list_all (\<lambda>sz. map_option size_of (rendered sz) = Some (sz, sz)) default_sizes \<and>
     (\<exists>images w1. render_sizes L default_sizes [] w = (Inr images, w1) \<and>
        list_all (\<lambda>a. a < length (heap w1)) images \<and>
        map (\<lambda>a. Some (heap w1 ! a)) images = map rendered default_sizes) \<and>
     (\<exists>frames w2. create_favicon_ico L default_sizes w = (Inr ico_path, w2) \<and>
        files w2 ico_path = Some (ICO frames) \<and>
        list_all (\<lambda>f. rendered (width f) = Some f) frames))"
proof -
  have a: "list_all (\<lambda>sz. 0 \<le> sz) default_sizes" and b: "default_sizes \<noteq> []"
    by (simp_all add: default_sizes_def)
  show ?thesis
    using a b resize_keeps_canvas [OF a b] by blast
qed

text \<open>
  Claim C6, on the code. A run of the script from the initial state ends without an
  exception and has written four files: the icon file and three pictures of 16, 32 and
  180 pixels. The icon file holds one frame, of 16 by 16 pixels, and not the six frames
  of 16, 32, 48, 64, 128 and 256 pixels: \<^verbatim>\<open>create_favicon_ico\<close> saves the smallest of
  its images, with the others appended, and the ICO writer leaves out every size that is
  larger than the image it is asked to save.
\<close>

theorem favicon_ico_one_frame:
  "fst (main L initial) = Inr () \<and>
   dom (files (snd (main L initial))) =
     {ico_path, public_dir @ ''favicon-16x16.png'', public_dir @ ''favicon-32x32.png'',
      public_dir @ ''apple-touch-icon.png''} \<and>
   map_option frame_sizes (files (snd (main L initial)) ico_path) = Some [(16, 16)] \<and>
   map_option frame_sizes (files (snd (main L initial)) (public_dir @ ''favicon-16x16.png'')) =
     Some [(16, 16)] \<and>
   map_option frame_sizes (files (snd (main L initial)) (public_dir @ ''favicon-32x32.png'')) =
     Some [(32, 32)] \<and>
   map_option frame_sizes (files (snd (main L initial)) (public_dir @ ''apple-touch-icon.png'')) =
     Some [(180, 180)] \<and>
   files (snd (main L initial)) ico_path = map_option (\<lambda>im. ICO [im]) (rendered 16)"
proof -
  from main_run [of L] obtain w where
    run: "main L initial = (Inr (), w)"
    and written: "files w =
       [ico_path \<mapsto> ICO [the (rendered 16)],
        public_dir @ ''favicon-16x16.png'' \<mapsto> PNG (the (rendered 16)),
        public_dir @ ''favicon-32x32.png'' \<mapsto> PNG (the (rendered 32)),
        public_dir @ ''apple-touch-icon.png'' \<mapsto> PNG (the (rendered 180))]"
    by blast
  have paths:
    "ico_path \<noteq> public_dir @ ''favicon-16x16.png''"
    "ico_path \<noteq> public_dir @ ''favicon-32x32.png''"
    "ico_path \<noteq> public_dir @ ''apple-touch-icon.png''"
    by (simp_all add: ico_path_def)
  have d: "dom (files w) =
     {ico_path, public_dir @ ''favicon-16x16.png'', public_dir @ ''favicon-32x32.png'',
      public_dir @ ''apple-touch-icon.png''}"
    unfolding written by auto
  have sizes:
    "map_option frame_sizes (files w ico_path) = Some [(16, 16)]"
    "map_option frame_sizes (files w (public_dir @ ''favicon-16x16.png'')) = Some [(16, 16)]"
    "map_option frame_sizes (files w (public_dir @ ''favicon-32x32.png'')) = Some [(32, 32)]"
    "map_option frame_sizes (files w (public_dir @ ''apple-touch-icon.png'')) = Some [(180, 180)]"
    "files w ico_path = map_option (\<lambda>im. ICO [im]) (rendered 16)"
    unfolding written using paths
    by (simp_all add: frame_sizes_def size_of_def rendered_draws)
  show ?thesis
    unfolding run using d sizes by simp
qed

end
